theory Spec2Isabelle
  imports Main "HOL-Library.Sublist"
begin

section \<open>Python values used by \<open>main.py\<close>\<close>

text \<open>
  A Python \<open>str\<close> is a \<^typ>\<open>string\<close>; a character is read as a code point below 256.
  A \<open>Dict[str, str]\<close> is an association list, looked up with \<^const>\<open>map_of\<close>; a
  subscript \<open>d[k]\<close> on a missing key raises \<open>KeyError\<close>.
\<close>

type_synonym pydict = "(string \<times> string) list"

datatype error =
    BackendError string  \<comment> \<open>any exception raised inside \<open>ollama.chat\<close>, with its kind\<close>
  | KeyError string      \<comment> \<open>a subscript on a missing key\<close>

definition getitem :: "(string \<times> 'v) list \<Rightarrow> string \<Rightarrow> error + 'v" where
  "getitem d k = (case map_of d k of None \<Rightarrow> Inl (KeyError k) | Some v \<Rightarrow> Inr v)"

text \<open>
  \<open>str.lower()\<close> on code points below 256: the ASCII capitals and the Latin-1 capitals
  (192 to 222 without the multiplication sign 215) move up by 32, everything else stays.
\<close>

definition lower_char :: "char \<Rightarrow> char" where
  "lower_char c =
     (let n = (of_char c :: nat)
      in if (65 \<le> n \<and> n \<le> 90) \<or> (192 \<le> n \<and> n \<le> 222 \<and> n \<noteq> 215)
         then char_of (n + 32) else c)"

definition lower :: "string \<Rightarrow> string" where
  "lower s = map lower_char s"

text \<open>The substring test \<open>word in s\<close> of Python, by scanning the start positions of \<open>s\<close>.\<close>

fun py_in :: "string \<Rightarrow> string \<Rightarrow> bool" where
  "py_in w [] = (w = [])"
| "py_in w (c # cs) = (prefix w (c # cs) \<or> py_in w cs)"

text \<open>\<open>sep.join(xs)\<close>\<close>

fun join :: "string \<Rightarrow> string list \<Rightarrow> string" where
  "join sep [] = []"
| "join sep [x] = x"
| "join sep (x # y # ys) = x @ sep @ join sep (y # ys)"


section \<open>Sentiment analysis\<close>

definition analyze_sentiment :: "string \<Rightarrow> string" where
  "analyze_sentiment message =
     (if list_ex (\<lambda>word. py_in word (lower message))
           [''sad'', ''depressed'', ''anxious'', ''upset'']
      then ''negative''
      else if list_ex (\<lambda>word. py_in word (lower message))
           [''happy'', ''excited'', ''joyful'']
      then ''positive''
      else ''neutral'')"

text \<open>
  The classifier as the specification words it: lowercase the text, then look for a
  negative keyword as a contiguous part of it, then for a positive one.
\<close>

definition negative_keywords :: "string set" where
  "negative_keywords = {''sad'', ''depressed'', ''anxious'', ''upset''}"

definition positive_keywords :: "string set" where
  "positive_keywords = {''happy'', ''excited'', ''joyful''}"

definition classify_spec :: "string \<Rightarrow> string" where
  "classify_spec text =
     (let t = lower text
      in if \<exists>k \<in> negative_keywords. sublist k t then ''negative''
         else if \<exists>k \<in> positive_keywords. sublist k t then ''positive''
         else ''neutral'')"


text \<open>
  The digest text as the specification words it: the texts of the turns, each one after
  the first preceded by a newline.
\<close>

fun newline_joined :: "string list \<Rightarrow> string" where
  "newline_joined [] = []"
| "newline_joined (t # ts) = t @ concat (map (\<lambda>x. CHR 0x0A # x) ts)"


section \<open>The conversation state and the store\<close>

text \<open>
  \<open>ChatState\<close> instances and Python lists are mutable objects, so both live in a store
  and are named by references (positions in the store). A \<open>ChatState\<close> holds a reference
  to its \<open>messages\<close> list: two instances may share one list. The store also records
  every request sent to \<open>ollama.chat\<close>.
\<close>

type_synonym ref = nat

record ChatState =
  messages :: ref
  sentiment :: string
  summary :: string
  feedback :: string
  user_input :: string

type_synonym request = "string \<times> pydict list"  \<comment> \<open>\<open>model\<close> and \<open>messages\<close> of a call\<close>

type_synonym response = "(string \<times> pydict) list"

record world =
  objects :: "ChatState list"
  pylists :: "pydict list list"
  calls :: "request list"

text \<open>
  The model backend is outside the program: it is a parameter, which answers a request,
  knowing the requests made before, with a response or with an exception.
\<close>

type_synonym backend = "request list \<Rightarrow> request \<Rightarrow> error + response"

type_synonym 'a io = "world \<Rightarrow> (error + 'a) \<times> world"

text \<open>
  A reference of a running program always names an object of the store: \<open>valid w p\<close>
  says so of the state \<open>p\<close> and of its list. Reads by \<open>!\<close> are meant under it.
\<close>

definition valid :: "world \<Rightarrow> ref \<Rightarrow> bool" where
  "valid w p \<longleftrightarrow> p < length (objects w) \<and> messages (objects w ! p) < length (pylists w)"

definition turns :: "world \<Rightarrow> ref \<Rightarrow> pydict list" where
  "turns w p = pylists w ! messages (objects w ! p)"

definition ollama_chat :: "backend \<Rightarrow> string \<Rightarrow> pydict list \<Rightarrow> response io" where
  "ollama_chat B model msgs w =
     (B (calls w) (model, msgs), w\<lparr>calls := calls w @ [(model, msgs)]\<rparr>)"

text \<open>\<open>response["message"]["content"]\<close>\<close>

definition content_of :: "response \<Rightarrow> error + string" where
  "content_of response =
     (case getitem response ''message'' of
        Inl e \<Rightarrow> Inl e
      | Inr message \<Rightarrow> getitem message ''content'')"

text \<open>
  The adapter as a whole, from the outcome of the call: the exception of the call, or what
  the two subscripts give on its response.
\<close>

definition reply_of :: "error + response \<Rightarrow> error + string" where
  "reply_of r = (case r of Inl e \<Rightarrow> Inl e | Inr response \<Rightarrow> content_of response)"

text \<open>
  \<open>state.model_copy()\<close> is a shallow copy: a new instance with the same field values,
  so with the same \<open>messages\<close> list.
\<close>

definition model_copy :: "ref \<Rightarrow> world \<Rightarrow> ref \<times> world" where
  "model_copy p w = (length (objects w), w\<lparr>objects := objects w @ [objects w ! p]\<rparr>)"

definition list_append :: "ref \<Rightarrow> pydict \<Rightarrow> world \<Rightarrow> world" where
  "list_append l x w = w\<lparr>pylists := (pylists w)[l := pylists w ! l @ [x]]\<rparr>"

definition set_sentiment :: "ref \<Rightarrow> string \<Rightarrow> world \<Rightarrow> world" where
  "set_sentiment p v w = w\<lparr>objects := (objects w)[p := (objects w ! p)\<lparr>sentiment := v\<rparr>]\<rparr>"

definition set_summary :: "ref \<Rightarrow> string \<Rightarrow> world \<Rightarrow> world" where
  "set_summary p v w = w\<lparr>objects := (objects w)[p := (objects w ! p)\<lparr>summary := v\<rparr>]\<rparr>"

definition set_user_input :: "ref \<Rightarrow> string \<Rightarrow> world \<Rightarrow> world" where
  "set_user_input p v w = w\<lparr>objects := (objects w)[p := (objects w ! p)\<lparr>user_input := v\<rparr>]\<rparr>"

text \<open>
  \<open>model_dump()\<close> reads an instance into plain values (the list by its contents), and
  \<open>ChatState(**d)\<close> builds a new instance with a new list from them.
\<close>

record dump =
  d_messages :: "pydict list"
  d_sentiment :: string
  d_summary :: string
  d_feedback :: string
  d_user_input :: string

definition model_dump :: "ref \<Rightarrow> world \<Rightarrow> dump" where
  "model_dump p w =
     \<lparr>d_messages = pylists w ! messages (objects w ! p),
      d_sentiment = sentiment (objects w ! p),
      d_summary = summary (objects w ! p),
      d_feedback = feedback (objects w ! p),
      d_user_input = user_input (objects w ! p)\<rparr>"

definition ChatState_init :: "dump \<Rightarrow> ref io" where
  "ChatState_init d w =
     (let l = length (pylists w);
          w1 = w\<lparr>pylists := pylists w @ [d_messages d]\<rparr>;
          p = length (objects w1);
          w2 = w1\<lparr>objects := objects w1 @
                 [\<lparr>messages = l, sentiment = d_sentiment d, summary = d_summary d,
                   feedback = d_feedback d, user_input = d_user_input d\<rparr>]\<rparr>
      in (Inr p, w2))"

text \<open>The defaults of the class: \<open>ChatState()\<close>.\<close>

definition default_dump :: dump where
  "default_dump =
     \<lparr>d_messages = [], d_sentiment = ''neutral'', d_summary = [], d_feedback = [],
      d_user_input = []\<rparr>"

definition empty_world :: world where
  "empty_world = \<lparr>objects = [], pylists = [], calls = []\<rparr>"


section \<open>The pipeline\<close>

definition user_message :: "string \<Rightarrow> pydict list" where
  "user_message text = [[(''role'', ''user''), (''content'', text)]]"

definition chatbot_response :: "backend \<Rightarrow> ref \<Rightarrow> ref io" where
  "chatbot_response B state w =
     (let user_input' = user_input (objects w ! state)
      in case ollama_chat B ''llama3'' (user_message user_input') w of
           (Inl e, w1) \<Rightarrow> (Inl e, w1)
         | (Inr response, w1) \<Rightarrow>
             (case model_copy state w1 of
                (new_state, w2) \<Rightarrow>
                  (case content_of response of
                     Inl e \<Rightarrow> (Inl e, w2)
                   | Inr content \<Rightarrow>
                       (let w3 = list_append (messages (objects w2 ! new_state))
                                   [(''user'', user_input'), (''bot'', content)] w2;
                            w4 = set_sentiment new_state (analyze_sentiment user_input') w3
                        in (Inr new_state, w4)))))"

text \<open>\<open>[msg["user"] + " " + msg["bot"] for msg in state.messages]\<close>\<close>

fun turn_texts :: "pydict list \<Rightarrow> error + string list" where
  "turn_texts [] = Inr []"
| "turn_texts (msg # msgs) =
     (case getitem msg ''user'' of
        Inl e \<Rightarrow> Inl e
      | Inr u \<Rightarrow>
          (case getitem msg ''bot'' of
             Inl e \<Rightarrow> Inl e
           | Inr b \<Rightarrow>
               (case turn_texts msgs of
                  Inl e \<Rightarrow> Inl e
                | Inr ts \<Rightarrow> Inr ((u @ '' '' @ b) # ts))))"

definition summarize_conversation :: "backend \<Rightarrow> ref \<Rightarrow> ref io" where
  "summarize_conversation B state w =
     (case turn_texts (pylists w ! messages (objects w ! state)) of
        Inl e \<Rightarrow> (Inl e, w)
      | Inr texts \<Rightarrow>
          (let messages_text = join [CHR 0x0A] texts
           in case ollama_chat B ''llama3''
                     (user_message (''Summarize this conversation: '' @ messages_text)) w of
                (Inl e, w1) \<Rightarrow> (Inl e, w1)
              | (Inr summary', w1) \<Rightarrow>
                  (case model_copy state w1 of
                     (new_state, w2) \<Rightarrow>
                       (case content_of summary' of
                          Inl e \<Rightarrow> (Inl e, w2)
                        | Inr text \<Rightarrow> (Inr new_state, set_summary new_state text w2)))))"

definition update_state :: "backend \<Rightarrow> ref \<Rightarrow> ref io" where
  "update_state B state w =
     (case chatbot_response B state w of
        (Inl e, w1) \<Rightarrow> (Inl e, w1)
      | (Inr new_state, w1) \<Rightarrow>
          (case (if length (pylists w1 ! messages (objects w1 ! new_state)) mod 5 = 0
                 then summarize_conversation B new_state w1
                 else (Inr new_state, w1)) of
             (Inl e, w2) \<Rightarrow> (Inl e, w2)
           | (Inr new_state', w2) \<Rightarrow> ChatState_init (model_dump new_state' w2) w2))"

text \<open>
  The interactive loop on the input lines \<open>inputs\<close>: each line is stored in the held
  state, \<open>graph.invoke\<close> runs the single node of the graph, \<open>update_state\<close>, on it, and
  the result becomes the held state. An exception ends the loop. The loop of the source
  reads lines for ever; here it is run on the lines read so far.
\<close>

fun main_loop :: "backend \<Rightarrow> string list \<Rightarrow> ref \<Rightarrow> ref io" where
  "main_loop B [] state w = (Inr state, w)"
| "main_loop B (line # inputs) state w =
     (case update_state B state (set_user_input state line w) of
        (Inl e, w1) \<Rightarrow> (Inl e, w1)
      | (Inr result, w1) \<Rightarrow> main_loop B inputs result w1)"

definition main :: "backend \<Rightarrow> string list \<Rightarrow> (error + ref) \<times> world" where
  "main B inputs =
     (case ChatState_init default_dump empty_world of
        (Inl e, w) \<Rightarrow> (Inl e, w)
      | (Inr state, w) \<Rightarrow> main_loop B inputs state w)"


section \<open>Concrete backends and stores\<close>

text \<open>A backend that answers every request with the reply \<open>reply\<close>.\<close>

definition fixed_backend :: "string \<Rightarrow> backend" where
  "fixed_backend reply hist req =
     Inr [(''model'', []), (''message'', [(''role'', ''assistant''), (''content'', reply)])]"

text \<open>A backend that is down: every request raises the exception \<open>e\<close>.\<close>

definition failing_backend :: "error \<Rightarrow> backend" where
  "failing_backend e hist req = Inl e"

text \<open>A backend that answers the first \<open>n\<close> requests and raises \<open>e\<close> from then on.\<close>

definition backend_failing_after :: "nat \<Rightarrow> error \<Rightarrow> backend" where
  "backend_failing_after n e hist req =
     (if length hist < n then fixed_backend ''ok'' hist req else Inl e)"

text \<open>A backend that answers every request with the content of its first message.\<close>

definition echo_backend :: backend where
  "echo_backend hist req =
     (case snd req of
        [] \<Rightarrow> Inl (BackendError ''ResponseError'')
      | m # ms \<Rightarrow>
          (case map_of m ''content'' of
             None \<Rightarrow> Inl (BackendError ''ResponseError'')
           | Some c \<Rightarrow> Inr [(''message'', [(''role'', ''assistant''), (''content'', c)])]))"

text \<open>
  The store right after \<open>state = ChatState()\<close> and \<open>state.user_input = line\<close>: one
  instance, at reference 0, with its own empty list.
\<close>

definition fresh_world :: "string \<Rightarrow> world" where
  "fresh_world line =
     set_user_input 0 line (snd (ChatState_init default_dump empty_world))"

text \<open>The store of a state that already holds four turns and awaits \<open>line\<close>.\<close>

definition four_turns :: "pydict list" where
  "four_turns =
     [[(''user'', ''a''), (''bot'', ''b'')], [(''user'', ''c''), (''bot'', ''d'')],
      [(''user'', ''e''), (''bot'', ''f'')], [(''user'', ''g''), (''bot'', ''h'')]]"

definition world_after_four :: "string \<Rightarrow> world" where
  "world_after_four line =
     \<lparr>objects = [\<lparr>messages = 0, sentiment = ''neutral'', summary = ''old'',
                  feedback = ''fine'', user_input = line\<rparr>],
      pylists = [four_turns], calls = []\<rparr>"


section \<open>What each function does to the store\<close>

lemma py_in_sublist: "py_in w s = sublist w s"
  by (induction s) (auto simp: sublist_Cons_right)

lemma join_newline_joined: "join [CHR 0x0A] texts = newline_joined texts"
  by (induction "[CHR 0x0A]" texts rule: join.induct) simp_all

lemma chatbot_response_raises:
  assumes "B (calls w) (''llama3'', user_message (user_input (objects w ! p))) = Inl e"
  shows "chatbot_response B p w =
    (Inl e, w\<lparr>calls := calls w @ [(''llama3'', user_message (user_input (objects w ! p)))]\<rparr>)"
  using assms by (simp add: chatbot_response_def ollama_chat_def Let_def)

lemma chatbot_response_returns:
  assumes "valid w p"
    and "B (calls w) (''llama3'', user_message (user_input (objects w ! p))) = Inr resp"
    and "content_of resp = Inr c"
  shows "chatbot_response B p w =
    (Inr (length (objects w)),
     w\<lparr>objects := objects w @
          [(objects w ! p)\<lparr>sentiment := analyze_sentiment (user_input (objects w ! p))\<rparr>],
       pylists := (pylists w)[messages (objects w ! p) :=
          turns w p @ [[(''user'', user_input (objects w ! p)), (''bot'', c)]]],
       calls := calls w @ [(''llama3'', user_message (user_input (objects w ! p)))]\<rparr>)"
  using assms
  by (simp add: chatbot_response_def ollama_chat_def Let_def model_copy_def list_append_def
      set_sentiment_def valid_def turns_def nth_append)

lemma chatbot_response_InrD:
  assumes "chatbot_response B p w = (Inr q, w')"
  shows "\<exists>resp c. B (calls w) (''llama3'', user_message (user_input (objects w ! p))) = Inr resp
           \<and> content_of resp = Inr c"
  using assms
  by (auto simp: chatbot_response_def ollama_chat_def Let_def model_copy_def
      split: sum.splits prod.splits)

lemma chatbot_response_post:
  assumes v: "valid w p" and r: "chatbot_response B p w = (Inr n, w1)"
  shows "\<exists>resp c.
      B (calls w) (''llama3'', user_message (user_input (objects w ! p))) = Inr resp
    \<and> content_of resp = Inr c
    \<and> n = length (objects w)
    \<and> objects w1 = objects w @
          [(objects w ! p)\<lparr>sentiment := analyze_sentiment (user_input (objects w ! p))\<rparr>]
    \<and> pylists w1 = (pylists w)[messages (objects w ! p) :=
          turns w p @ [[(''user'', user_input (objects w ! p)), (''bot'', c)]]]
    \<and> calls w1 = calls w @ [(''llama3'', user_message (user_input (objects w ! p)))]"
proof -
  from chatbot_response_InrD [OF r] obtain resp c
    where b: "B (calls w) (''llama3'', user_message (user_input (objects w ! p))) = Inr resp"
      and c: "content_of resp = Inr c"
    by blast
  have "chatbot_response B p w =
    (Inr (length (objects w)),
     w\<lparr>objects := objects w @
          [(objects w ! p)\<lparr>sentiment := analyze_sentiment (user_input (objects w ! p))\<rparr>],
       pylists := (pylists w)[messages (objects w ! p) :=
          turns w p @ [[(''user'', user_input (objects w ! p)), (''bot'', c)]]],
       calls := calls w @ [(''llama3'', user_message (user_input (objects w ! p)))]\<rparr>)"
    using v b c by (rule chatbot_response_returns)
  with r b c show ?thesis
    by auto
qed

lemma summarize_conversation_post:
  assumes v: "valid w p" and r: "summarize_conversation B p w = (Inr n, w1)"
  shows "\<exists>texts resp text.
      turn_texts (turns w p) = Inr texts
    \<and> B (calls w) (''llama3'',
          user_message (''Summarize this conversation: '' @ join [CHR 0x0A] texts)) = Inr resp
    \<and> content_of resp = Inr text
    \<and> n = length (objects w)
    \<and> objects w1 = objects w @ [(objects w ! p)\<lparr>summary := text\<rparr>]
    \<and> pylists w1 = pylists w
    \<and> calls w1 = calls w @ [(''llama3'',
          user_message (''Summarize this conversation: '' @ join [CHR 0x0A] texts))]"
  using assms
  by (auto simp: summarize_conversation_def ollama_chat_def Let_def model_copy_def
      set_summary_def turns_def valid_def
      split: sum.splits prod.splits)

lemma ChatState_init_eq:
  "ChatState_init d w =
    (Inr (length (objects w)),
     w\<lparr>pylists := pylists w @ [d_messages d],
       objects := objects w @
         [\<lparr>messages = length (pylists w), sentiment = d_sentiment d, summary = d_summary d,
           feedback = d_feedback d, user_input = d_user_input d\<rparr>]\<rparr>)"
  by (simp add: ChatState_init_def Let_def)

lemma update_state_InrD:
  assumes r: "update_state B p w = (Inr q, w')"
  shows "\<exists>n1 w1 n2 w2.
      chatbot_response B p w = (Inr n1, w1)
    \<and> (if length (turns w1 n1) mod 5 = 0
        then summarize_conversation B n1 w1 = (Inr n2, w2)
        else n2 = n1 \<and> w2 = w1)
    \<and> ChatState_init (model_dump n2 w2) w2 = (Inr q, w')"
  using assms
  by (auto simp: update_state_def turns_def split: sum.splits prod.splits if_splits)


lemma update_state_post:
  assumes v: "valid w p" and r: "update_state B p w = (Inr q, w')"
  shows "\<exists>resp c.
      B (calls w) (''llama3'', user_message (user_input (objects w ! p))) = Inr resp
    \<and> content_of resp = Inr c
    \<and> valid w' q
    \<and> turns w' q = turns w p @ [[(''user'', user_input (objects w ! p)), (''bot'', c)]]
    \<and> turns w' p = turns w p @ [[(''user'', user_input (objects w ! p)), (''bot'', c)]]
    \<and> objects w' ! p = objects w ! p
    \<and> messages (objects w' ! q) \<noteq> messages (objects w ! p)
    \<and> q \<noteq> p
    \<and> sentiment (objects w' ! q) = analyze_sentiment (user_input (objects w ! p))
    \<and> feedback (objects w' ! q) = feedback (objects w ! p)
    \<and> user_input (objects w' ! q) = user_input (objects w ! p)
    \<and> (length (turns w' q) mod 5 \<noteq> 0 \<longrightarrow>
          summary (objects w' ! q) = summary (objects w ! p)
        \<and> calls w' = calls w @ [(''llama3'', user_message (user_input (objects w ! p)))])
    \<and> (length (turns w' q) mod 5 = 0 \<longrightarrow>
          (\<exists>texts resp2 text.
              turn_texts (turns w' q) = Inr texts
            \<and> B (calls w @ [(''llama3'', user_message (user_input (objects w ! p)))])
                 (''llama3'', user_message
                    (''Summarize this conversation: '' @ join [CHR 0x0A] texts)) = Inr resp2
            \<and> content_of resp2 = Inr text
            \<and> summary (objects w' ! q) = text
            \<and> calls w' = calls w @
                 [(''llama3'', user_message (user_input (objects w ! p))),
                  (''llama3'', user_message
                    (''Summarize this conversation: '' @ join [CHR 0x0A] texts))]))"
proof -
  from update_state_InrD [OF r] obtain n1 w1 n2 w2
    where c1: "chatbot_response B p w = (Inr n1, w1)"
      and c2: "if length (turns w1 n1) mod 5 = 0
               then summarize_conversation B n1 w1 = (Inr n2, w2)
               else n2 = n1 \<and> w2 = w1"
      and c3: "ChatState_init (model_dump n2 w2) w2 = (Inr q, w')"
    by blast
  from chatbot_response_post [OF v c1] obtain resp c
    where b: "B (calls w) (''llama3'', user_message (user_input (objects w ! p))) = Inr resp"
      and c: "content_of resp = Inr c"
      and n1: "n1 = length (objects w)"
      and o1: "objects w1 = objects w @
          [(objects w ! p)\<lparr>sentiment := analyze_sentiment (user_input (objects w ! p))\<rparr>]"
      and l1: "pylists w1 = (pylists w)[messages (objects w ! p) :=
          turns w p @ [[(''user'', user_input (objects w ! p)), (''bot'', c)]]]"
      and k1: "calls w1 = calls w @ [(''llama3'', user_message (user_input (objects w ! p)))]"
    by blast
  have v1: "valid w1 n1"
    using v by (simp add: valid_def n1 o1 l1)
  have t1: "turns w1 n1 = turns w p @ [[(''user'', user_input (objects w ! p)), (''bot'', c)]]"
    using v by (simp add: valid_def turns_def n1 o1 l1)
  show ?thesis
  proof (cases "length (turns w1 n1) mod 5 = 0")
    case False
    with c2 have e: "n2 = n1" "w2 = w1" by simp_all
    from c3 have q: "q = length (objects w1)"
      and w': "w' = w1\<lparr>pylists := pylists w1 @ [d_messages (model_dump n1 w1)],
          objects := objects w1 @
            [\<lparr>messages = length (pylists w1), sentiment = d_sentiment (model_dump n1 w1),
              summary = d_summary (model_dump n1 w1), feedback = d_feedback (model_dump n1 w1),
              user_input = d_user_input (model_dump n1 w1)\<rparr>]\<rparr>"
      by (simp_all add: ChatState_init_eq e)
    have tq: "turns w' q = turns w1 n1"
      by (simp add: turns_def q w' model_dump_def)
    show ?thesis
      using v b c False t1 tq
      by (simp add: valid_def turns_def q w' model_dump_def n1 o1 l1 k1 nth_append)
  next
    case True
    with c2 have s: "summarize_conversation B n1 w1 = (Inr n2, w2)" by simp
    from summarize_conversation_post [OF v1 s] obtain texts resp2 smry
      where tt: "turn_texts (turns w1 n1) = Inr texts"
        and b2: "B (calls w1) (''llama3'',
          user_message (''Summarize this conversation: '' @ join [CHR 0x0A] texts)) = Inr resp2"
        and c2': "content_of resp2 = Inr smry"
        and n2: "n2 = length (objects w1)"
        and o2: "objects w2 = objects w1 @ [(objects w1 ! n1)\<lparr>summary := smry\<rparr>]"
        and l2: "pylists w2 = pylists w1"
        and k2: "calls w2 = calls w1 @ [(''llama3'',
          user_message (''Summarize this conversation: '' @ join [CHR 0x0A] texts))]"
      by blast
    from c3 have q: "q = length (objects w2)"
      and w': "w' = w2\<lparr>pylists := pylists w2 @ [d_messages (model_dump n2 w2)],
          objects := objects w2 @
            [\<lparr>messages = length (pylists w2), sentiment = d_sentiment (model_dump n2 w2),
              summary = d_summary (model_dump n2 w2), feedback = d_feedback (model_dump n2 w2),
              user_input = d_user_input (model_dump n2 w2)\<rparr>]\<rparr>"
      by (simp_all add: ChatState_init_eq)
    have tq: "turns w' q = turns w1 n1"
      using v by (simp add: turns_def q w' model_dump_def n2 o2 l2 n1 o1 l1 valid_def nth_append)
    have "\<exists>texts resp2 text.
              turn_texts (turns w' q) = Inr texts
            \<and> B (calls w @ [(''llama3'', user_message (user_input (objects w ! p)))])
                 (''llama3'', user_message
                    (''Summarize this conversation: '' @ join [CHR 0x0A] texts)) = Inr resp2
            \<and> content_of resp2 = Inr text
            \<and> summary (objects w' ! q) = text
            \<and> calls w' = calls w @
                 [(''llama3'', user_message (user_input (objects w ! p))),
                  (''llama3'', user_message
                    (''Summarize this conversation: '' @ join [CHR 0x0A] texts))]"
      using tt b2 c2' tq
      by (simp add: q w' model_dump_def n2 o2 l2 n1 o1 k1 k2 nth_append)
    then show ?thesis
      using v b c True t1 tq
      by (simp add: valid_def turns_def q w' model_dump_def n2 o2 l2 n1 o1 l1 k1 nth_append)
  qed
qed


lemma set_user_input_valid: "valid w p \<Longrightarrow> valid (set_user_input p v w) p"
  by (simp add: valid_def set_user_input_def)

lemma set_user_input_turns: "valid w p \<Longrightarrow> turns (set_user_input p v w) p = turns w p"
  by (simp add: valid_def turns_def set_user_input_def)

lemma main_loop_length:
  "valid w p \<Longrightarrow> main_loop B inputs p w = (Inr q, w') \<Longrightarrow>
     length (turns w' q) = length (turns w p) + length inputs"
proof (induction inputs arbitrary: p w)
  case Nil
  then show ?case by simp
next
  case (Cons line inputs)
  let ?w0 = "set_user_input p line w"
  from Cons.prems(2) obtain r w1
    where u: "update_state B p ?w0 = (Inr r, w1)"
      and m: "main_loop B inputs r w1 = (Inr q, w')"
    by (auto split: prod.splits sum.splits)
  have v0: "valid ?w0 p"
    using Cons.prems(1) by (rule set_user_input_valid)
  from update_state_post [OF v0 u] have v1: "valid w1 r"
    and l1: "length (turns w1 r) = Suc (length (turns ?w0 p))"
    by auto
  from Cons.IH [OF v1 m] l1 set_user_input_turns [OF Cons.prems(1)]
  show ?case by simp
qed

lemma main_length:
  assumes "main B inputs = (Inr q, w')"
  shows "length (turns w' q) = length inputs"
proof -
  let ?w0 = "snd (ChatState_init default_dump empty_world)"
  have v: "valid ?w0 0"
    by (simp add: ChatState_init_eq valid_def empty_world_def)
  have t: "turns ?w0 0 = []"
    by (simp add: ChatState_init_eq turns_def empty_world_def default_dump_def)
  from assms have "main_loop B inputs 0 ?w0 = (Inr q, w')"
    by (simp add: main_def ChatState_init_eq empty_world_def)
  from main_loop_length [OF v this] t show ?thesis by simp
qed

lemma turn_texts_list_all2:
  "turn_texts ms = Inr texts \<Longrightarrow>
     list_all2 (\<lambda>msg t. \<exists>u b. getitem msg ''user'' = Inr u \<and> getitem msg ''bot'' = Inr b
                  \<and> t = u @ '' '' @ b) ms texts"
  by (induction ms arbitrary: texts) (auto split: sum.splits)

lemma chatbot_response_calls:
  "calls (snd (chatbot_response B p w)) =
     calls w @ [(''llama3'', user_message (user_input (objects w ! p)))]"
  by (simp add: chatbot_response_def ollama_chat_def Let_def model_copy_def list_append_def
      set_sentiment_def split: sum.splits prod.splits)

lemma summarize_conversation_calls:
  "prefix (calls w) (calls (snd (summarize_conversation B p w)))"
  by (simp add: summarize_conversation_def ollama_chat_def Let_def model_copy_def
      set_summary_def split: sum.splits prod.splits)

lemma update_state_calls:
  "prefix (calls w @ [(''llama3'', user_message (user_input (objects w ! p)))])
     (calls (snd (update_state B p w)))"
proof (cases "chatbot_response B p w")
  case (Pair r w1)
  with chatbot_response_calls [of B p w]
  have k: "calls w1 = calls w @ [(''llama3'', user_message (user_input (objects w ! p)))]"
    by simp
  show ?thesis
  proof (cases r)
    case (Inl e)
    with Pair k show ?thesis by (simp add: update_state_def)
  next
    case (Inr n)
    show ?thesis
      using Pair Inr k summarize_conversation_calls [of w1 B n]
      by (auto simp: update_state_def ChatState_init_eq split: sum.splits prod.splits)
  qed
qed

lemma update_state_raises:
  assumes "B (calls w) (''llama3'', user_message (user_input (objects w ! p))) = Inl e"
  shows "update_state B p w =
    (Inl e, w\<lparr>calls := calls w @ [(''llama3'', user_message (user_input (objects w ! p)))]\<rparr>)"
  using assms chatbot_response_raises [where B = B and w = w and p = p and e = e]
  by (simp add: update_state_def)



section \<open>The claims\<close>

text \<open>
  Claim C1. A successful call of \<open>update_state\<close> returns a state whose list of turns is
  the list of the input state, as it was before the call, followed by one entry: the
  user input and the text the backend answered. Hence the loop, started from
  \<open>ChatState()\<close>, holds after \<open>N\<close> successful calls a state with exactly \<open>N\<close> turns.
\<close>

theorem turns_grow_by_one_per_call:
  "(valid w p \<and> update_state B p w = (Inr q, w') \<longrightarrow>
      (\<exists>resp bot.
          B (calls w) (''llama3'', [[(''role'', ''user''),
              (''content'', user_input (objects w ! p))]]) = Inr resp
        \<and> content_of resp = Inr bot
        \<and> turns w' q = turns w p @ [[(''user'', user_input (objects w ! p)), (''bot'', bot)]]))
   \<and> (main B inputs = (Inr r, v) \<longrightarrow> length (turns v r) = length inputs)"
proof (intro conjI impI)
  assume "valid w p \<and> update_state B p w = (Inr q, w')"
  then have v: "valid w p" and u: "update_state B p w = (Inr q, w')"
    by simp_all
  from update_state_post [OF v u]
  show "\<exists>resp bot.
          B (calls w) (''llama3'', [[(''role'', ''user''),
              (''content'', user_input (objects w ! p))]]) = Inr resp
        \<and> content_of resp = Inr bot
        \<and> turns w' q = turns w p @ [[(''user'', user_input (objects w ! p)), (''bot'', bot)]]"
    unfolding user_message_def by blast
next
  assume "main B inputs = (Inr r, v)"
  then show "length (turns v r) = length inputs"
    by (rule main_length)
qed

theorem turns_grow_by_one_per_call_witness:
  "valid (fresh_world ''hello'') 0
   \<and> update_state (fixed_backend ''hi'') 0 (fresh_world ''hello'') =
       (Inr 2, snd (update_state (fixed_backend ''hi'') 0 (fresh_world ''hello'')))
   \<and> turns (snd (update_state (fixed_backend ''hi'') 0 (fresh_world ''hello''))) 2 =
       turns (fresh_world ''hello'') 0 @ [[(''user'', ''hello''), (''bot'', ''hi'')]]
   \<and> main (fixed_backend ''hi'') [''x'', ''I am SAD''] =
       (Inr 4, snd (main (fixed_backend ''hi'') [''x'', ''I am SAD'']))
   \<and> length (turns (snd (main (fixed_backend ''hi'') [''x'', ''I am SAD''])) 4) = 2"
proof -
  have h1: "valid (fresh_world ''hello'') 0"
    by code_simp
  have h2: "update_state (fixed_backend ''hi'') 0 (fresh_world ''hello'') =
       (Inr 2, snd (update_state (fixed_backend ''hi'') 0 (fresh_world ''hello'')))"
    by code_simp
  have h3: "main (fixed_backend ''hi'') [''x'', ''I am SAD''] =
       (Inr 4, snd (main (fixed_backend ''hi'') [''x'', ''I am SAD'']))"
    by code_simp
  have h4: "user_input (objects (fresh_world ''hello'') ! 0) = ''hello''"
    by code_simp
  have h5: "content_of resp = Inr bot \<Longrightarrow> fixed_backend ''hi'' hist req = Inr resp \<Longrightarrow> bot = ''hi''"
    for resp bot hist req
    by (auto simp: fixed_backend_def content_of_def getitem_def)
  from turns_grow_by_one_per_call [of "fresh_world ''hello''" 0 "fixed_backend ''hi''" 2
      "snd (update_state (fixed_backend ''hi'') 0 (fresh_world ''hello''))"
      "[''x'', ''I am SAD'']" 4 "snd (main (fixed_backend ''hi'') [''x'', ''I am SAD''])"]
    h1 h2 h3 h4 h5
  show ?thesis
    by auto
qed


text \<open>
  Claim C2. The summary of the state returned by a successful \<open>update_state\<close> equals the
  summary of the input state on every call whose resulting number of turns is not a
  positive multiple of 5: the summary can differ only on a multiple-of-5 call.
\<close>

theorem summary_kept_off_multiples_of_five:
  assumes "valid w p"
    and "update_state B p w = (Inr q, w')"
    and "\<not> (0 < length (turns w' q) \<and> length (turns w' q) mod 5 = 0)"
  shows "summary (objects w' ! q) = summary (objects w ! p)"
proof -
  from update_state_post [OF assms(1,2)]
  have t: "0 < length (turns w' q)"
    and s: "length (turns w' q) mod 5 \<noteq> 0 \<longrightarrow>
              summary (objects w' ! q) = summary (objects w ! p)"
    by auto
  from t assms(3) have "length (turns w' q) mod 5 \<noteq> 0"
    by simp
  with s show ?thesis
    by simp
qed

theorem summary_kept_off_multiples_of_five_witness:
  "valid (fresh_world ''hello'') 0
   \<and> update_state (fixed_backend ''hi'') 0 (fresh_world ''hello'') =
       (Inr 2, snd (update_state (fixed_backend ''hi'') 0 (fresh_world ''hello'')))
   \<and> \<not> (0 < length (turns (snd (update_state (fixed_backend ''hi'') 0
                (fresh_world ''hello''))) 2)
        \<and> length (turns (snd (update_state (fixed_backend ''hi'') 0
                (fresh_world ''hello''))) 2) mod 5 = 0)
   \<and> summary (objects (snd (update_state (fixed_backend ''hi'') 0
         (fresh_world ''hello''))) ! 2) = summary (objects (fresh_world ''hello'') ! 0)"
proof -
  have h1: "valid (fresh_world ''hello'') 0"
    by code_simp
  have h2: "update_state (fixed_backend ''hi'') 0 (fresh_world ''hello'') =
       (Inr 2, snd (update_state (fixed_backend ''hi'') 0 (fresh_world ''hello'')))"
    by code_simp
  have h3: "\<not> (0 < length (turns (snd (update_state (fixed_backend ''hi'') 0
                (fresh_world ''hello''))) 2)
        \<and> length (turns (snd (update_state (fixed_backend ''hi'') 0
                (fresh_world ''hello''))) 2) mod 5 = 0)"
    by code_simp
  from summary_kept_off_multiples_of_five [OF h1 h2 h3] h1 h2 h3
  show ?thesis
    by simp
qed

text \<open>
  Claim C3. \<open>analyze_sentiment\<close> computes the classifier of the specification: the
  lowercased text is searched for a negative keyword, then for a positive one, else the
  label is neutral. It is a function of the text alone; texts with the same lowercase form
  get the same label, \<open>SAD\<close> and \<open>sad\<close> are negative, and a text holding a negative
  keyword is negative whatever positive keywords it holds.
\<close>

theorem analyze_sentiment_is_classify_spec:
  "analyze_sentiment text = classify_spec text
   \<and> analyze_sentiment ''SAD'' = ''negative''
   \<and> analyze_sentiment ''sad'' = ''negative''
   \<and> (lower a = lower b \<longrightarrow> analyze_sentiment a = analyze_sentiment b)
   \<and> ((\<exists>k \<in> negative_keywords. sublist k (lower text)) \<longrightarrow>
         analyze_sentiment text = ''negative'')"
proof (intro conjI impI)
  show "analyze_sentiment text = classify_spec text"
    by (simp add: analyze_sentiment_def classify_spec_def negative_keywords_def
        positive_keywords_def py_in_sublist Let_def)
  show "analyze_sentiment ''SAD'' = ''negative''"
    by code_simp
  show "analyze_sentiment ''sad'' = ''negative''"
    by code_simp
  show "analyze_sentiment a = analyze_sentiment b" if "lower a = lower b"
    using that by (simp add: analyze_sentiment_def)
  show "analyze_sentiment text = ''negative''"
    if "\<exists>k \<in> negative_keywords. sublist k (lower text)"
    using that by (auto simp: analyze_sentiment_def negative_keywords_def py_in_sublist)
qed

theorem analyze_sentiment_is_classify_spec_witness:
  "lower ''Happy but SAD'' = lower ''happy BUT sad''
   \<and> sublist ''sad'' (lower ''Happy but SAD'')
   \<and> sublist ''happy'' (lower ''Happy but SAD'')
   \<and> analyze_sentiment ''Happy but SAD'' = ''negative''
   \<and> analyze_sentiment ''happy BUT sad'' = ''negative''
   \<and> classify_spec ''Happy but SAD'' = ''negative''"
proof -
  have h1: "lower ''Happy but SAD'' = lower ''happy BUT sad''"
    by code_simp
  have "py_in ''sad'' (lower ''Happy but SAD'')"
    by code_simp
  then have h2: "sublist ''sad'' (lower ''Happy but SAD'')"
    by (simp add: py_in_sublist)
  have "py_in ''happy'' (lower ''Happy but SAD'')"
    by code_simp
  then have h3: "sublist ''happy'' (lower ''Happy but SAD'')"
    by (simp add: py_in_sublist)
  have h4: "\<exists>k \<in> negative_keywords. sublist k (lower ''Happy but SAD'')"
    using h2 by (auto simp: negative_keywords_def)
  from analyze_sentiment_is_classify_spec
    [of "''Happy but SAD''" "''Happy but SAD''" "''happy BUT sad''"] h1 h4
  have "analyze_sentiment ''Happy but SAD'' = classify_spec ''Happy but SAD''"
    and "analyze_sentiment ''Happy but SAD'' = analyze_sentiment ''happy BUT sad''"
    and "analyze_sentiment ''Happy but SAD'' = ''negative''"
    by blast+
  with h1 h2 h3 show ?thesis
    by metis
qed


text \<open>
  Claim C4. A successful \<open>summarize_conversation\<close> returns a state equal to the input
  state in every field but \<open>summary\<close>, with the same turns. The new summary is the text
  the backend answered to one request, made of a single user message whose content is
  \<open>Summarize this conversation: \<close> followed by the texts \<open>user + " " + bot\<close> of all
  turns, in order, with a newline between two of them; the old summary plays no part in
  it.
\<close>

theorem summarize_conversation_replaces_summary:
  assumes "valid w p"
    and "summarize_conversation B p w = (Inr q, w')"
  shows "\<exists>texts resp smry.
      list_all2 (\<lambda>msg t. \<exists>u b. getitem msg ''user'' = Inr u \<and> getitem msg ''bot'' = Inr b
                   \<and> t = u @ '' '' @ b) (turns w p) texts
    \<and> B (calls w) (''llama3'', [[(''role'', ''user''), (''content'',
          ''Summarize this conversation: '' @ newline_joined texts)]]) = Inr resp
    \<and> content_of resp = Inr smry
    \<and> objects w' ! q = (objects w ! p)\<lparr>summary := smry\<rparr>
    \<and> turns w' q = turns w p
    \<and> calls w' = calls w @ [(''llama3'', [[(''role'', ''user''), (''content'',
          ''Summarize this conversation: '' @ newline_joined texts)]])]"
proof -
  from summarize_conversation_post [OF assms] obtain texts resp smry
    where tt: "turn_texts (turns w p) = Inr texts"
      and b: "B (calls w) (''llama3'',
          user_message (''Summarize this conversation: '' @ join [CHR 0x0A] texts)) = Inr resp"
      and c: "content_of resp = Inr smry"
      and q: "q = length (objects w)"
      and o: "objects w' = objects w @ [(objects w ! p)\<lparr>summary := smry\<rparr>]"
      and l: "pylists w' = pylists w"
      and k: "calls w' = calls w @ [(''llama3'',
          user_message (''Summarize this conversation: '' @ join [CHR 0x0A] texts))]"
    by blast
  have "objects w' ! q = (objects w ! p)\<lparr>summary := smry\<rparr>"
    by (simp add: q o)
  moreover have "turns w' q = turns w p"
    by (simp add: turns_def q o l)
  ultimately show ?thesis
    using turn_texts_list_all2 [OF tt] b c k
    unfolding user_message_def join_newline_joined by blast
qed

text \<open>
  On a state with the four turns \<open>a b\<close>, \<open>c d\<close>, \<open>e f\<close>, \<open>g h\<close> and the old summary
  \<open>old\<close>, with a backend that answers a request with its content, the new summary is
  the prompt itself, and it is the request that was sent.
\<close>

theorem summarize_conversation_replaces_summary_witness:
  "valid (world_after_four ''x'') 0
   \<and> summarize_conversation echo_backend 0 (world_after_four ''x'') =
       (Inr 1, snd (summarize_conversation echo_backend 0 (world_after_four ''x'')))
   \<and> summary (objects (snd (summarize_conversation echo_backend 0
         (world_after_four ''x''))) ! 1) =
       ''Summarize this conversation: a b'' @ [CHR 0x0A] @ ''c d'' @ [CHR 0x0A] @ ''e f''
         @ [CHR 0x0A] @ ''g h''
   \<and> calls (snd (summarize_conversation echo_backend 0 (world_after_four ''x''))) =
       [(''llama3'', [[(''role'', ''user''), (''content'',
          ''Summarize this conversation: a b'' @ [CHR 0x0A] @ ''c d'' @ [CHR 0x0A] @ ''e f''
            @ [CHR 0x0A] @ ''g h'')]])]
   \<and> turns (snd (summarize_conversation echo_backend 0 (world_after_four ''x''))) 1 =
       four_turns
   \<and> sentiment (objects (snd (summarize_conversation echo_backend 0
         (world_after_four ''x''))) ! 1) = ''neutral''"
proof -
  let ?w' = "snd (summarize_conversation echo_backend 0 (world_after_four ''x''))"
  have h1: "valid (world_after_four ''x'') 0"
    by code_simp
  have h2: "summarize_conversation echo_backend 0 (world_after_four ''x'') = (Inr 1, ?w')"
    by code_simp
  have h3: "turns (world_after_four ''x'') 0 = four_turns"
    by code_simp
  have h4: "objects (world_after_four ''x'') ! 0 =
      \<lparr>messages = 0, sentiment = ''neutral'', summary = ''old'', feedback = ''fine'',
       user_input = ''x''\<rparr>"
    by (simp add: world_after_four_def)
  have h5: "calls (world_after_four ''x'') = []"
    by (simp add: world_after_four_def)
  have h6: "texts = [''a b'', ''c d'', ''e f'', ''g h'']"
    if "list_all2 (\<lambda>msg t. \<exists>u b. getitem msg ''user'' = Inr u \<and> getitem msg ''bot'' = Inr b
                   \<and> t = u @ '' '' @ b) four_turns texts" for texts
    using that
    by (auto simp: four_turns_def getitem_def list_all2_Cons1)
  have h7: "smry = c"
    if "echo_backend hist (m, [[(''role'', ''user''), (''content'', c)]]) = Inr resp"
      and "content_of resp = Inr smry" for hist m c resp smry
    using that by (auto simp: echo_backend_def content_of_def getitem_def)
  from summarize_conversation_replaces_summary [OF h1 h2] obtain texts resp smry
    where a: "list_all2 (\<lambda>msg t. \<exists>u b. getitem msg ''user'' = Inr u
                   \<and> getitem msg ''bot'' = Inr b \<and> t = u @ '' '' @ b)
                 (turns (world_after_four ''x'') 0) texts"
      and b: "echo_backend (calls (world_after_four ''x'')) (''llama3'', [[(''role'', ''user''),
          (''content'', ''Summarize this conversation: '' @ newline_joined texts)]]) = Inr resp"
      and c: "content_of resp = Inr smry"
      and o: "objects ?w' ! 1 = (objects (world_after_four ''x'') ! 0)\<lparr>summary := smry\<rparr>"
      and t: "turns ?w' 1 = turns (world_after_four ''x'') 0"
      and k: "calls ?w' = calls (world_after_four ''x'') @ [(''llama3'', [[(''role'', ''user''),
          (''content'', ''Summarize this conversation: '' @ newline_joined texts)]])]"
    by blast
  from a h3 have tx: "texts = [''a b'', ''c d'', ''e f'', ''g h'']"
    by (simp add: h6)
  from h7 [OF b c] have s: "smry = ''Summarize this conversation: '' @ newline_joined texts" .
  show ?thesis
    using h1 h2 o t k h3
    by (simp add: s tx h4 h5)
qed

text \<open>
  The first adapter call of a turn, the one of \<open>chatbot_response\<close>: when it raises,
  \<open>update_state\<close> (and \<open>chatbot_response\<close> in it) ends with exactly that exception,
  after one request and no more, and no instance and no list of the store has changed.
\<close>

lemma respond_failure_propagates_unchanged:
  assumes "B (calls w) (''llama3'', [[(''role'', ''user''),
              (''content'', user_input (objects w ! p))]]) = Inl e"
  shows "fst (update_state B p w) = Inl e
    \<and> fst (chatbot_response B p w) = Inl e
    \<and> objects (snd (update_state B p w)) = objects w
    \<and> pylists (snd (update_state B p w)) = pylists w
    \<and> turns (snd (update_state B p w)) p = turns w p
    \<and> calls (snd (update_state B p w)) = calls w @ [(''llama3'', [[(''role'', ''user''),
              (''content'', user_input (objects w ! p))]])]"
proof -
  from assms
  have b: "B (calls w) (''llama3'', user_message (user_input (objects w ! p))) = Inl e"
    by (simp add: user_message_def)
  have "update_state B p w =
    (Inl e, w\<lparr>calls := calls w @ [(''llama3'', user_message (user_input (objects w ! p)))]\<rparr>)"
    using b by (rule update_state_raises)
  moreover have "chatbot_response B p w =
    (Inl e, w\<lparr>calls := calls w @ [(''llama3'', user_message (user_input (objects w ! p)))]\<rparr>)"
    using b by (rule chatbot_response_raises)
  ultimately show ?thesis
    by (simp add: turns_def user_message_def)
qed

lemma respond_failure_propagates_unchanged_example:
  "failing_backend (BackendError ''ConnectionError'') (calls (world_after_four ''hello''))
     (''llama3'', [[(''role'', ''user''),
        (''content'', user_input (objects (world_after_four ''hello'') ! 0))]]) =
     Inl (BackendError ''ConnectionError'')
   \<and> fst (update_state (failing_backend (BackendError ''ConnectionError'')) 0
        (world_after_four ''hello'')) = Inl (BackendError ''ConnectionError'')
   \<and> turns (snd (update_state (failing_backend (BackendError ''ConnectionError'')) 0
        (world_after_four ''hello''))) 0 = turns (world_after_four ''hello'') 0
   \<and> objects (snd (update_state (failing_backend (BackendError ''ConnectionError'')) 0
        (world_after_four ''hello''))) = objects (world_after_four ''hello'')"
proof -
  have h: "failing_backend (BackendError ''ConnectionError'') (calls (world_after_four ''hello''))
     (''llama3'', [[(''role'', ''user''),
        (''content'', user_input (objects (world_after_four ''hello'') ! 0))]]) =
     Inl (BackendError ''ConnectionError'')"
    by (simp add: failing_backend_def)
  from h respond_failure_propagates_unchanged
    [where B = "failing_backend (BackendError ''ConnectionError'')"
       and w = "world_after_four ''hello''" and p = 0
       and e = "BackendError ''ConnectionError''"]
  show ?thesis
    by simp
qed


text \<open>
  The caller's own instance keeps its fields across a successful \<open>update_state\<close>, and the
  returned instance is another one with another list; but the list of the caller's
  instance is the one \<open>chatbot_response\<close> appended to.
\<close>

lemma update_state_appends_to_input_list:
  assumes "valid w p" and "update_state B p w = (Inr q, w')"
  shows "objects w' ! p = objects w ! p \<and> q \<noteq> p
    \<and> messages (objects w' ! q) \<noteq> messages (objects w ! p)
    \<and> length (turns w' p) = Suc (length (turns w p))"
  using update_state_post [OF assms] by auto

text \<open>
  Claim C5, which the code breaks on every fifth turn. There \<open>update_state\<close> makes a
  second adapter call, the summarizer's. When that call raises, the exception reaches the
  caller as it is and nothing is retried, but \<open>chatbot_response\<close> has already appended
  the new turn to the list that the caller's state shares with the copy: the caller's
  state, which had four turns before the failed call, has five after it. Its sentiment
  and summary are the ones it had.
\<close>

theorem summarizer_failure_keeps_appended_turn:
  "valid (world_after_four ''hello'') 0
   \<and> length (turns (world_after_four ''hello'') 0) = 4
   \<and> fst (update_state (backend_failing_after 1 (BackendError ''Timeout'')) 0
          (world_after_four ''hello'')) = Inl (BackendError ''Timeout'')
   \<and> length (calls (snd (update_state (backend_failing_after 1 (BackendError ''Timeout'')) 0
          (world_after_four ''hello'')))) = 2
   \<and> turns (snd (update_state (backend_failing_after 1 (BackendError ''Timeout'')) 0
          (world_after_four ''hello''))) 0 =
       four_turns @ [[(''user'', ''hello''), (''bot'', ''ok'')]]
   \<and> length (turns (snd (update_state (backend_failing_after 1 (BackendError ''Timeout'')) 0
          (world_after_four ''hello''))) 0) = 5
   \<and> objects (snd (update_state (backend_failing_after 1 (BackendError ''Timeout'')) 0
          (world_after_four ''hello''))) ! 0 = objects (world_after_four ''hello'') ! 0"
  by code_simp

text \<open>
  Claim C6, which the code breaks. \<open>model_copy()\<close> copies the instance and not its list,
  so \<open>new_state.messages.append\<close> appends to the list of the caller's state: after a
  successful \<open>update_state\<close> on a fresh state, the caller's state, which had no turn, has
  one.
\<close>

theorem update_state_mutates_caller_turns:
  "valid (fresh_world ''hello'') 0
   \<and> turns (fresh_world ''hello'') 0 = []
   \<and> fst (update_state (fixed_backend ''hi'') 0 (fresh_world ''hello'')) = Inr 2
   \<and> turns (snd (update_state (fixed_backend ''hi'') 0 (fresh_world ''hello''))) 0 =
       [[(''user'', ''hello''), (''bot'', ''hi'')]]
   \<and> turns (snd (update_state (fixed_backend ''hi'') 0 (fresh_world ''hello''))) 0 \<noteq>
       turns (fresh_world ''hello'') 0"
  by code_simp

text \<open>
  Claim C7. \<open>chatbot_response\<close> sends the backend one request, whatever the outcome: model
  \<open>llama3\<close> and a list of exactly one message, of role \<open>user\<close>, whose content is the
  \<open>user_input\<close> of the state. Nothing else of the state is in the request.
\<close>

theorem chatbot_response_sends_only_user_input:
  "calls (snd (chatbot_response B p w)) =
     calls w @ [(''llama3'', [[(''role'', ''user''),
                               (''content'', user_input (objects w ! p))]])]"
  using chatbot_response_calls [of B p w] by (simp add: user_message_def)

text \<open>
  Claim C10. A successful \<open>update_state\<close>, with or without summarization, returns a
  state with the \<open>feedback\<close> and the \<open>user_input\<close> of the input state.
\<close>

theorem update_state_keeps_feedback_and_user_input:
  assumes "valid w p" and "update_state B p w = (Inr q, w')"
  shows "feedback (objects w' ! q) = feedback (objects w ! p)
    \<and> user_input (objects w' ! q) = user_input (objects w ! p)"
  using update_state_post [OF assms] by auto

theorem update_state_keeps_feedback_and_user_input_witness:
  "valid (world_after_four ''I am happy'') 0
   \<and> update_state (fixed_backend ''hi'') 0 (world_after_four ''I am happy'') =
       (Inr 3, snd (update_state (fixed_backend ''hi'') 0 (world_after_four ''I am happy'')))
   \<and> feedback (objects (snd (update_state (fixed_backend ''hi'') 0
         (world_after_four ''I am happy''))) ! 3) = ''fine''
   \<and> user_input (objects (snd (update_state (fixed_backend ''hi'') 0
         (world_after_four ''I am happy''))) ! 3) = ''I am happy''"
proof -
  have h1: "valid (world_after_four ''I am happy'') 0"
    by code_simp
  have h2: "update_state (fixed_backend ''hi'') 0 (world_after_four ''I am happy'') =
       (Inr 3, snd (update_state (fixed_backend ''hi'') 0 (world_after_four ''I am happy'')))"
    by code_simp
  have h3: "feedback (objects (world_after_four ''I am happy'') ! 0) = ''fine''"
    by code_simp
  have h4: "user_input (objects (world_after_four ''I am happy'') ! 0) = ''I am happy''"
    by code_simp
  from update_state_keeps_feedback_and_user_input [OF h1 h2] h1 h2 h3 h4
  show ?thesis
    by simp
qed

lemma content_of_cases:
  "content_of resp =
     (case map_of resp ''message'' of
        None \<Rightarrow> Inl (KeyError ''message'')
      | Some m \<Rightarrow>
          (case map_of m ''content'' of
             None \<Rightarrow> Inl (KeyError ''content'')
           | Some c \<Rightarrow> Inr c))"
  by (simp add: content_of_def getitem_def split: option.splits)

lemma chatbot_response_outcome:
  assumes "valid w p"
  shows "case reply_of (B (calls w) (''llama3'', user_message (user_input (objects w ! p)))) of
      Inl e \<Rightarrow> fst (chatbot_response B p w) = Inl e
    | Inr c \<Rightarrow>
        fst (chatbot_response B p w) = Inr (length (objects w))
      \<and> last (turns (snd (chatbot_response B p w)) (length (objects w))) =
          [(''user'', user_input (objects w ! p)), (''bot'', c)]"
  using assms
  by (simp add: reply_of_def chatbot_response_def ollama_chat_def Let_def model_copy_def
      list_append_def set_sentiment_def valid_def turns_def nth_append
      split: sum.splits prod.splits)

lemma summarize_conversation_outcome:
  assumes "valid w p" and "turn_texts (turns w p) = Inr texts"
  shows "case reply_of (B (calls w) (''llama3'',
             user_message (''Summarize this conversation: '' @ join [CHR 0x0A] texts))) of
      Inl e \<Rightarrow> fst (summarize_conversation B p w) = Inl e
    | Inr c \<Rightarrow>
        fst (summarize_conversation B p w) = Inr (length (objects w))
      \<and> summary (objects (snd (summarize_conversation B p w)) ! length (objects w)) = c"
  using assms
  by (simp add: reply_of_def summarize_conversation_def ollama_chat_def Let_def model_copy_def
      set_summary_def valid_def turns_def nth_append
      split: sum.splits prod.splits)

text \<open>
  Claim C8, as the code has it. The code names no error kinds and does not look at the
  text it gets. Whatever exception the backend call raises is what \<open>chatbot_response\<close>
  and \<open>summarize_conversation\<close> end with; a response without a \<open>message\<close> or without
  its \<open>content\<close> ends them with a \<open>KeyError\<close>; and every text the backend answers, the
  empty text too, is taken as the reply or as the summary.
\<close>

theorem backend_outcome_surfaces_as_is:
  "(valid w p \<longrightarrow>
      (case reply_of (B (calls w) (''llama3'', [[(''role'', ''user''),
                (''content'', user_input (objects w ! p))]])) of
         Inl e \<Rightarrow> fst (chatbot_response B p w) = Inl e
       | Inr c \<Rightarrow>
           fst (chatbot_response B p w) = Inr (length (objects w))
         \<and> last (turns (snd (chatbot_response B p w)) (length (objects w))) =
             [(''user'', user_input (objects w ! p)), (''bot'', c)]))
   \<and> (valid w p \<and> turn_texts (turns w p) = Inr texts \<longrightarrow>
      (case reply_of (B (calls w) (''llama3'', [[(''role'', ''user''), (''content'',
                ''Summarize this conversation: '' @ join [CHR 0x0A] texts)]])) of
         Inl e \<Rightarrow> fst (summarize_conversation B p w) = Inl e
       | Inr c \<Rightarrow>
           fst (summarize_conversation B p w) = Inr (length (objects w))
         \<and> summary (objects (snd (summarize_conversation B p w)) ! length (objects w)) = c))
   \<and> reply_of (Inl e) = Inl e
   \<and> reply_of (Inr resp) =
       (case map_of resp ''message'' of
          None \<Rightarrow> Inl (KeyError ''message'')
        | Some m \<Rightarrow>
            (case map_of m ''content'' of
               None \<Rightarrow> Inl (KeyError ''content'')
             | Some c \<Rightarrow> Inr c))"
proof (intro conjI impI)
  assume "valid w p"
  from chatbot_response_outcome [OF this, of B]
  show "case reply_of (B (calls w) (''llama3'', [[(''role'', ''user''),
                (''content'', user_input (objects w ! p))]])) of
         Inl e \<Rightarrow> fst (chatbot_response B p w) = Inl e
       | Inr c \<Rightarrow>
           fst (chatbot_response B p w) = Inr (length (objects w))
         \<and> last (turns (snd (chatbot_response B p w)) (length (objects w))) =
             [(''user'', user_input (objects w ! p)), (''bot'', c)]"
    by (simp add: user_message_def)
next
  assume "valid w p \<and> turn_texts (turns w p) = Inr texts"
  then have v: "valid w p" and t: "turn_texts (turns w p) = Inr texts"
    by simp_all
  from summarize_conversation_outcome [OF v t, of B]
  show "case reply_of (B (calls w) (''llama3'', [[(''role'', ''user''), (''content'',
                ''Summarize this conversation: '' @ join [CHR 0x0A] texts)]])) of
         Inl e \<Rightarrow> fst (summarize_conversation B p w) = Inl e
       | Inr c \<Rightarrow>
           fst (summarize_conversation B p w) = Inr (length (objects w))
         \<and> summary (objects (snd (summarize_conversation B p w)) ! length (objects w)) = c"
    by (simp add: user_message_def)
next
  show "reply_of (Inl e) = Inl e"
    by (simp add: reply_of_def)
  show "reply_of (Inr resp) =
       (case map_of resp ''message'' of
          None \<Rightarrow> Inl (KeyError ''message'')
        | Some m \<Rightarrow>
            (case map_of m ''content'' of
               None \<Rightarrow> Inl (KeyError ''content'')
             | Some c \<Rightarrow> Inr c))"
    by (simp add: reply_of_def content_of_cases)
qed

theorem backend_outcome_surfaces_as_is_witness:
  "valid (world_after_four ''hello'') 0
   \<and> turn_texts (turns (world_after_four ''hello'') 0) = Inr [''a b'', ''c d'', ''e f'', ''g h'']
   \<and> fst (chatbot_response (failing_backend (BackendError ''Timeout'')) 0
        (world_after_four ''hello'')) = Inl (BackendError ''Timeout'')
   \<and> fst (summarize_conversation (failing_backend (BackendError ''Timeout'')) 0
        (world_after_four ''hello'')) = Inl (BackendError ''Timeout'')"
proof -
  have h1: "valid (world_after_four ''hello'') 0"
    by code_simp
  have h2: "turn_texts (turns (world_after_four ''hello'') 0) =
      Inr [''a b'', ''c d'', ''e f'', ''g h'']"
    by code_simp
  have h3: "reply_of (failing_backend (BackendError ''Timeout'') hist req) =
      Inl (BackendError ''Timeout'')" for hist req
    by (simp add: reply_of_def failing_backend_def)
  from backend_outcome_surfaces_as_is
    [of "world_after_four ''hello''" 0 "failing_backend (BackendError ''Timeout'')"
      "[''a b'', ''c d'', ''e f'', ''g h'']"] h1 h2 h3
  show ?thesis
    by simp
qed

text \<open>
  Claim C8 as stated fails: a backend that answers with an empty text makes
  \<open>update_state\<close> return normally, with the empty text as the reply of the new turn and,
  on the fifth turn, as the summary. No exception is raised.
\<close>

theorem empty_reply_returned_silently:
  "content_of [(''model'', []), (''message'', [(''role'', ''assistant''), (''content'', [])])] =
     Inr []
   \<and> fst (update_state (fixed_backend []) 0 (fresh_world ''hello'')) = Inr 2
   \<and> turns (snd (update_state (fixed_backend []) 0 (fresh_world ''hello''))) 2 =
       [[(''user'', ''hello''), (''bot'', [])]]
   \<and> fst (update_state (fixed_backend []) 0 (world_after_four ''hello'')) = Inr 3
   \<and> summary (objects (world_after_four ''hello'') ! 0) = ''old''
   \<and> summary (objects (snd (update_state (fixed_backend []) 0
         (world_after_four ''hello''))) ! 3) = []"
  by code_simp

text \<open>
  Claim C9. On a state whose \<open>user_input\<close> is the empty text, \<open>update_state\<close> still sends
  the backend the request with the empty content, as its first request; the classifier
  gives \<open>neutral\<close> on the empty text; and when the call succeeds the returned state has
  sentiment \<open>neutral\<close> and one turn more, whose user text is empty.
\<close>

theorem blank_input_is_processed:
  assumes "valid w p" and "user_input (objects w ! p) = []"
  shows "prefix (calls w @ [(''llama3'', [[(''role'', ''user''), (''content'', [])]])])
           (calls (snd (update_state B p w)))
    \<and> analyze_sentiment [] = ''neutral''
    \<and> (update_state B p w = (Inr q, w') \<longrightarrow>
          sentiment (objects w' ! q) = ''neutral''
        \<and> length (turns w' q) = Suc (length (turns w p))
        \<and> (\<exists>bot. turns w' q = turns w p @ [[(''user'', []), (''bot'', bot)]]))"
proof (intro conjI impI)
  from update_state_calls [of w p B] assms(2)
  show "prefix (calls w @ [(''llama3'', [[(''role'', ''user''), (''content'', [])]])])
           (calls (snd (update_state B p w)))"
    by (simp add: user_message_def)
  show n: "analyze_sentiment [] = ''neutral''"
    by code_simp
  assume u: "update_state B p w = (Inr q, w')"
  from update_state_post [OF assms(1) u] assms(2) n
  show "sentiment (objects w' ! q) = ''neutral''"
    and "length (turns w' q) = Suc (length (turns w p))"
    and "\<exists>bot. turns w' q = turns w p @ [[(''user'', []), (''bot'', bot)]]"
    by auto
qed

theorem blank_input_is_processed_witness:
  "valid (fresh_world []) 0
   \<and> user_input (objects (fresh_world []) ! 0) = []
   \<and> update_state (fixed_backend ''hi'') 0 (fresh_world []) =
       (Inr 2, snd (update_state (fixed_backend ''hi'') 0 (fresh_world [])))
   \<and> sentiment (objects (snd (update_state (fixed_backend ''hi'') 0 (fresh_world []))) ! 2) =
       ''neutral''
   \<and> length (turns (snd (update_state (fixed_backend ''hi'') 0 (fresh_world []))) 2) =
       Suc (length (turns (fresh_world []) 0))
   \<and> prefix (calls (fresh_world []) @ [(''llama3'', [[(''role'', ''user''), (''content'', [])]])])
       (calls (snd (update_state (fixed_backend ''hi'') 0 (fresh_world []))))"
proof -
  have h1: "valid (fresh_world []) 0"
    by code_simp
  have h2: "user_input (objects (fresh_world []) ! 0) = []"
    by code_simp
  have h3: "update_state (fixed_backend ''hi'') 0 (fresh_world []) =
       (Inr 2, snd (update_state (fixed_backend ''hi'') 0 (fresh_world [])))"
    by code_simp
  from blank_input_is_processed [OF h1 h2, of "fixed_backend ''hi''" 2
      "snd (update_state (fixed_backend ''hi'') 0 (fresh_world []))"] h1 h2 h3
  show ?thesis
    by simp
qed

end
